theory Spec2Isabelle
  imports Complex_Main "HOL-Library.Product_Lexorder"
begin

section \<open>The chat client: data model\<close>

text \<open>
  JavaScript strings are modelled as \<open>string\<close>, read as sequences of code units below
  256. An object field that may be missing (\<open>undefined\<close>) or \<open>null\<close> is an \<open>option\<close>,
  with \<open>None\<close> for the missing value. JSON that comes from the backend is viewed through
  the fields the client reads; a field the backend sends is taken to have the type its
  contract gives it (a text, a list of sources, a list of models).
\<close>

datatype json =
    JNull
  | JBool bool
  | JNum rat
  | JStr string
  | JArr "json list"
  | JObj "(string \<times> json) list"

record source =
  src_title :: "string option"
  src_url :: "string option"
  src_snippet :: "string option"

text \<open>A chat message as the UI stores it in \<open>chatHistory\<close>.\<close>

record message =
  msg_id :: "rat option"
  msg_type :: string
  msg_content :: "string option"
  msg_sources :: "source list option"
  msg_timestamp :: string

text \<open>A conversation turn as \<open>formatChatHistory\<close> emits it.\<close>

record turn =
  role :: string
  content :: "string option"
  timestamp :: string

text \<open>The \<open>settings\<close> state of \<open>App\<close>.\<close>

record settings =
  model :: string
  temperature :: rat
  maxTokens :: int
  enableRAG :: bool

text \<open>The \<open>settings\<close> object inside a request payload, and the payload.\<close>

record payload_settings =
  ps_model :: string
  ps_temperature :: rat
  ps_max_tokens :: int
  ps_enable_rag :: bool

record payload =
  pl_message :: string
  pl_chat_history :: "turn list"
  pl_settings :: payload_settings

record model_info =
  mi_id :: string
  mi_name :: string

text \<open>
  The body of an HTTP reply (\<open>response.data\<close>), through the fields the client reads.
  Every field may be missing.
\<close>

record reply_body =
  rb_response :: "string option"
  rb_sources :: "source list option"
  rb_metadata :: "(string \<times> json) list option"
  rb_models :: "model_info list option"
  rb_message :: "string option"

text \<open>An axios response; \<open>rsp_data = None\<close> is a body that is \<open>null\<close>.\<close>

record http_response =
  rsp_status :: nat
  rsp_statusText :: string
  rsp_data :: "reply_body option"

text \<open>
  The values the client code can catch. \<open>AxiosError code response request\<close> is a
  rejection of the HTTP client: its \<open>code\<close>, its \<open>response\<close> when the server answered,
  and whether it carries a \<open>request\<close> object. \<open>TypeError p\<close> is the engine's error for
  reading property \<open>p\<close> of \<open>null\<close>. \<open>Error m\<close> is \<open>new Error(m)\<close>.
\<close>

datatype js_error =
    Error string
  | TypeError string
  | AxiosError "string option" "http_response option" bool

fun err_code :: "js_error \<Rightarrow> string option" where
  "err_code (AxiosError c r q) = c"
| "err_code _ = None"

fun err_response :: "js_error \<Rightarrow> http_response option" where
  "err_response (AxiosError c r q) = r"
| "err_response _ = None"

fun err_request :: "js_error \<Rightarrow> bool" where
  "err_request (AxiosError c r q) = q"
| "err_request _ = False"

datatype http_request =
    POST string payload
  | GET string

datatype outcome =
    Resolved http_response
  | Rejected js_error

text \<open>
  The network decides the outcome of a request from the requests issued before it and the
  request itself. A request that exceeds the client's timeout is a rejection with code
  \<open>ECONNABORTED\<close>.
\<close>

type_synonym network = "http_request list \<Rightarrow> http_request \<Rightarrow> outcome"

datatype log_entry =
    LogText string
  | LogPayload string payload
  | LogData string "reply_body option"
  | LogError string js_error

text \<open>The effects outside the UI state: the requests issued and the console.\<close>

record world =
  sent :: "http_request list"
  console :: "log_entry list"

definition console_log :: "log_entry \<Rightarrow> world \<Rightarrow> world" where
  "console_log e w = w\<lparr>console := console w @ [e]\<rparr>"

definition apiClient_post :: "network \<Rightarrow> string \<Rightarrow> payload \<Rightarrow> world \<Rightarrow> outcome \<times> world" where
  "apiClient_post net u p w = (net (sent w) (POST u p), w\<lparr>sent := sent w @ [POST u p]\<rparr>)"

definition apiClient_get :: "network \<Rightarrow> string \<Rightarrow> world \<Rightarrow> outcome \<times> world" where
  "apiClient_get net u w = (net (sent w) (GET u), w\<lparr>sent := sent w @ [GET u]\<rparr>)"

section \<open>ChatService\<close>

text \<open>\<open>a || b\<close> on an optional text: the empty text and the missing value are falsy.\<close>

definition or_text :: "string option \<Rightarrow> string \<Rightarrow> string" where
  "or_text a b = (case a of None \<Rightarrow> b | Some s \<Rightarrow> if s = [] then b else s)"

text \<open>\<open>a || []\<close> on an optional array: every array, also the empty one, is truthy.\<close>

definition or_empty :: "'a list option \<Rightarrow> 'a list" where
  "or_empty a = (case a of None \<Rightarrow> [] | Some xs \<Rightarrow> xs)"

definition formatChatHistory :: "message list \<Rightarrow> turn list" where
  "formatChatHistory chatHistory =
     map (\<lambda>m. \<lparr>role = (if msg_type m = ''user'' then ''user'' else ''assistant''),
               content = msg_content m,
               timestamp = msg_timestamp m\<rparr>) chatHistory"

definition build_payload :: "string \<Rightarrow> message list \<Rightarrow> settings \<Rightarrow> payload" where
  "build_payload msg chatHistory st =
     \<lparr>pl_message = msg,
      pl_chat_history = formatChatHistory chatHistory,
      pl_settings = \<lparr>ps_model = model st,
                     ps_temperature = temperature st,
                     ps_max_tokens = maxTokens st,
                     ps_enable_rag = enableRAG st\<rparr>\<rparr>"

record chat_result =
  res_content :: "string option"
  res_sources :: "source list"
  res_metadata :: "(string \<times> json) list"

definition timeout_message :: string where
  "timeout_message =
     ''Request timed out. The AI is taking longer than expected to respond. Please try again.''"

definition network_message :: string where
  "network_message =
     ''Network error: Unable to connect to the server. Please check your connection.''"

definition unexpected_message :: string where
  "unexpected_message = ''An unexpected error occurred. Please try again.''"

text \<open>
  \<open>error.response.data?.message || error.response.statusText\<close>, inside the template
  \<open>Server error: ...\<close>.
\<close>

definition server_message :: "http_response \<Rightarrow> string" where
  "server_message r =
     ''Server error: '' @
       or_text (case rsp_data r of None \<Rightarrow> None | Some d \<Rightarrow> rb_message d) (rsp_statusText r)"

text \<open>The \<open>catch\<close> block of \<open>sendMessage\<close>: it logs the error and always throws.\<close>

definition sendMessage_catch :: "js_error \<Rightarrow> world \<Rightarrow> (js_error + chat_result) \<times> world" where
  "sendMessage_catch e w =
     (let w' = console_log (LogError ''Frontend: Chat API error:'' e) w in
      if err_code e = Some ''ECONNABORTED'' then (Inl (Error timeout_message), w')
      else (case err_response e of
              Some r \<Rightarrow> (Inl (Error (server_message r)), w')
            | None \<Rightarrow>
                if err_request e then (Inl (Error network_message), w')
                else (Inl (Error unexpected_message), w')))"

definition sendMessage ::
  "network \<Rightarrow> string \<Rightarrow> message list \<Rightarrow> settings \<Rightarrow> world \<Rightarrow> (js_error + chat_result) \<times> world"
where
  "sendMessage net msg chatHistory st w =
     (let w1 = console_log (LogText ''Frontend: Sending message to backend...'') w;
          p = build_payload msg chatHistory st;
          w2 = console_log (LogPayload ''Frontend: Request payload:'' p) w1;
          (out, w3) = apiClient_post net ''/api/chat'' p w2
      in case out of
           Rejected e \<Rightarrow> sendMessage_catch e w3
         | Resolved r \<Rightarrow>
             (let w4 = console_log
                         (LogData ''Frontend: Received response from backend:'' (rsp_data r)) w3
              in case rsp_data r of
                   None \<Rightarrow> sendMessage_catch (TypeError ''response'') w4
                 | Some d \<Rightarrow>
                     (Inr \<lparr>res_content = rb_response d,
                           res_sources = or_empty (rb_sources d),
                           res_metadata = or_empty (rb_metadata d)\<rparr>, w4)))"

text \<open>The fallback list of \<open>getAvailableModels\<close>.\<close>

definition default_models :: "model_info list" where
  "default_models =
     [\<lparr>mi_id = ''phi:2.7b'', mi_name = ''Phi-2.7B (Ollama)''\<rparr>,
      \<lparr>mi_id = ''llama2:7b'', mi_name = ''Llama2-7B (Ollama)''\<rparr>,
      \<lparr>mi_id = ''mistral:7b'', mi_name = ''Mistral-7B (Ollama)''\<rparr>]"

text \<open>
  The \<open>try\<close> block of \<open>getAvailableModels\<close>: reading \<open>response.data.models\<close> throws
  when the body is \<open>null\<close>; a body without \<open>models\<close> gives \<open>undefined\<close> (\<open>None\<close>).
\<close>

definition getAvailableModels_try ::
  "network \<Rightarrow> world \<Rightarrow> (js_error + model_info list option) \<times> world"
where
  "getAvailableModels_try net w =
     (let (out, w1) = apiClient_get net ''/api/models'' w
      in case out of
           Rejected e \<Rightarrow> (Inl e, w1)
         | Resolved r \<Rightarrow>
             (case rsp_data r of
                None \<Rightarrow> (Inl (TypeError ''models''), w1)
              | Some d \<Rightarrow> (Inr (rb_models d), w1)))"

definition getAvailableModels ::
  "network \<Rightarrow> world \<Rightarrow> (js_error + model_info list option) \<times> world"
where
  "getAvailableModels net w =
     (case getAvailableModels_try net w of
        (Inr v, w1) \<Rightarrow> (Inr v, w1)
      | (Inl e, w1) \<Rightarrow>
          (Inr (Some default_models), console_log (LogError ''Models API error:'' e) w1))"

section \<open>MessageInput and ChatInterface\<close>

text \<open>
  \<open>String.prototype.trim\<close> removes white space and line terminators from both ends.
  Among the code units below 256 these are 9 to 13, 32 and 160.
\<close>

definition is_js_space :: "char \<Rightarrow> bool" where
  "is_js_space c = ((of_char c :: nat) \<in> {9, 10, 11, 12, 13, 32, 160})"

definition js_trim :: "string \<Rightarrow> string" where
  "js_trim s = rev (dropWhile is_js_space (rev (dropWhile is_js_space s)))"

text \<open>
  \<open>handleSend\<close> of \<open>MessageInput\<close>: the result is the call of \<open>onSend\<close> it makes,
  \<open>None\<close> when it makes none.
\<close>

definition handleSend :: "string \<Rightarrow> bool \<Rightarrow> string option" where
  "handleSend v disabled = (if js_trim v \<noteq> [] \<and> \<not> disabled then Some v else None)"

text \<open>
  \<open>handleKeyPress\<close> of \<open>MessageInput\<close>, from the event's \<open>key\<close> and \<open>shiftKey\<close>:
  Enter without Shift sends.
\<close>

definition handleKeyPress :: "string \<Rightarrow> bool \<Rightarrow> string \<Rightarrow> bool \<Rightarrow> string option" where
  "handleKeyPress key shiftKey v disabled =
     (if key = ''Enter'' \<and> \<not> shiftKey then handleSend v disabled else None)"

text \<open>
  The state the chat handler reads and writes: \<open>chatHistory\<close> and \<open>isLoading\<close> of
  \<open>App\<close>, \<open>inputMessage\<close> and \<open>isTyping\<close> of \<open>ChatInterface\<close>.
\<close>

record ui_state =
  chatHistory :: "message list"
  isLoading :: bool
  inputMessage :: string
  isTyping :: bool

text \<open>
  The readings of the clock one run of the handler takes: \<open>Date.now()\<close> and
  \<open>new Date().toISOString()\<close> for the user message, for the processing message and
  for the reply.
\<close>

record clock =
  now_user :: int
  iso_user :: string
  now_processing :: int
  iso_processing :: string
  now_reply :: int
  iso_reply :: string

definition addMessage :: "message \<Rightarrow> ui_state \<Rightarrow> ui_state" where
  "addMessage m ui = ui\<lparr>chatHistory := chatHistory ui @ [m]\<rparr>"

definition userMessage :: "clock \<Rightarrow> string \<Rightarrow> message" where
  "userMessage clk msg =
     \<lparr>msg_id = Some (of_int (now_user clk)), msg_type = ''user'', msg_content = Some msg,
      msg_sources = None, msg_timestamp = iso_user clk\<rparr>"

definition processingMessage :: "clock \<Rightarrow> message" where
  "processingMessage clk =
     \<lparr>msg_id = Some (of_int (now_processing clk) + 1 / 2), msg_type = ''processing'',
      msg_content = Some ''Processing your request...'',
      msg_sources = None, msg_timestamp = iso_processing clk\<rparr>"

definition botMessage :: "clock \<Rightarrow> chat_result \<Rightarrow> message" where
  "botMessage clk response =
     \<lparr>msg_id = Some (of_int (now_reply clk) + 1), msg_type = ''bot'',
      msg_content = res_content response,
      msg_sources = Some (or_empty (Some (res_sources response))),
      msg_timestamp = iso_reply clk\<rparr>"

definition errorMessage :: "clock \<Rightarrow> message" where
  "errorMessage clk =
     \<lparr>msg_id = Some (of_int (now_reply clk) + 1), msg_type = ''error'',
      msg_content = Some ''Sorry, I encountered an error. Please try again.'',
      msg_sources = None, msg_timestamp = iso_reply clk\<rparr>"

text \<open>The \<open>finally\<close> block of \<open>handleSendMessage\<close>.\<close>

definition handleSendMessage_finally :: "ui_state \<Rightarrow> ui_state" where
  "handleSendMessage_finally ui = ui\<lparr>isTyping := False, isLoading := False\<rparr>"

text \<open>
  \<open>handleSendMessage\<close> of \<open>ChatInterface\<close>, run to its end with the network's answer.
  The history handed to \<open>sendMessage\<close> is the one of the render the handler was
  created in: it holds neither the user message nor the processing message.
\<close>

definition handleSendMessage ::
  "network \<Rightarrow> clock \<Rightarrow> settings \<Rightarrow> string \<Rightarrow> ui_state \<times> world \<Rightarrow> ui_state \<times> world"
where
  "handleSendMessage net clk st msg = (\<lambda>(ui, w).
     if js_trim msg = [] then (ui, w)
     else
       (let ui1 = addMessage (userMessage clk msg) ui;
            ui2 = ui1\<lparr>inputMessage := [], isTyping := True, isLoading := True\<rparr>;
            ui3 = addMessage (processingMessage clk) ui2;
            (res, w1) = sendMessage net msg (chatHistory ui) st w
        in case res of
             Inr response \<Rightarrow>
               (handleSendMessage_finally (addMessage (botMessage clk response) ui3), w1)
           | Inl err \<Rightarrow>
               (handleSendMessage_finally (addMessage (errorMessage clk) ui3),
                console_log (LogError ''Chat error:'' err) w1)))"

text \<open>
  Pressing send in \<open>MessageInput\<close> as \<open>ChatInterface\<close> wires it:
  \<open>value = inputMessage\<close>, \<open>disabled = isLoading\<close>, \<open>onSend = handleSendMessage\<close>.
\<close>

definition press_send ::
  "network \<Rightarrow> clock \<Rightarrow> settings \<Rightarrow> ui_state \<times> world \<Rightarrow> ui_state \<times> world"
where
  "press_send net clk st = (\<lambda>(ui, w).
     case handleSend (inputMessage ui) (isLoading ui) of
       None \<Rightarrow> (ui, w)
     | Some v \<Rightarrow> handleSendMessage net clk st v (ui, w))"

section \<open>Message\<close>

text \<open>\<open>source.title || source.url\<close>.\<close>

definition source_label :: "source \<Rightarrow> string option" where
  "source_label s =
     (case src_title s of
        None \<Rightarrow> src_url s
      | Some t \<Rightarrow> if t = [] then src_url s else Some t)"

text \<open>
  The Sources section of a rendered message: \<open>None\<close> when the section is not rendered,
  otherwise the link target and the label of each entry.
\<close>

definition sources_section :: "message \<Rightarrow> (string option \<times> string option) list option" where
  "sources_section m =
     (if msg_type m = ''bot''
         \<and> (case msg_sources m of None \<Rightarrow> False | Some xs \<Rightarrow> 0 < length xs)
      then Some (map (\<lambda>s. (src_url s, source_label s)) (or_empty (msg_sources m)))
      else None)"

section \<open>App settings and the settings panel\<close>

definition initial_settings :: settings where
  "initial_settings =
     \<lparr>model = ''mistral:7b'', temperature = 7 / 10, maxTokens = 1000, enableRAG = True\<rparr>"

text \<open>An object with some of the settings' keys, as \<open>updateSettings\<close> receives it.\<close>

record settings_patch =
  pt_model :: "string option"
  pt_temperature :: "rat option"
  pt_maxTokens :: "int option"
  pt_enableRAG :: "bool option"

definition empty_patch :: settings_patch where
  "empty_patch =
     \<lparr>pt_model = None, pt_temperature = None, pt_maxTokens = None, pt_enableRAG = None\<rparr>"

text \<open>\<open>updateSettings\<close>: \<open>{ ...prev, ...newSettings }\<close>.\<close>

definition updateSettings :: "settings \<Rightarrow> settings_patch \<Rightarrow> settings" where
  "updateSettings prev newSettings =
     \<lparr>model = (case pt_model newSettings of None \<Rightarrow> model prev | Some v \<Rightarrow> v),
      temperature = (case pt_temperature newSettings of None \<Rightarrow> temperature prev | Some v \<Rightarrow> v),
      maxTokens = (case pt_maxTokens newSettings of None \<Rightarrow> maxTokens prev | Some v \<Rightarrow> v),
      enableRAG = (case pt_enableRAG newSettings of None \<Rightarrow> enableRAG prev | Some v \<Rightarrow> v)\<rparr>"

text \<open>
  The events of the panel's controls. A slider event carries the number its value text
  denotes; \<open>parseFloat\<close> keeps it, \<open>parseInt\<close> cuts its fraction off.
\<close>

datatype panel_event =
    SelectModel string
  | SlideTemperature rat
  | SlideMaxTokens rat
  | ToggleRAG

definition js_parseInt :: "rat \<Rightarrow> int" where
  "js_parseInt v = (if 0 \<le> v then \<lfloor>v\<rfloor> else \<lceil>v\<rceil>)"

fun panel_onChange :: "settings \<Rightarrow> panel_event \<Rightarrow> settings_patch" where
  "panel_onChange st (SelectModel v) = empty_patch\<lparr>pt_model := Some v\<rparr>"
| "panel_onChange st (SlideTemperature v) = empty_patch\<lparr>pt_temperature := Some v\<rparr>"
| "panel_onChange st (SlideMaxTokens v) = empty_patch\<lparr>pt_maxTokens := Some (js_parseInt v)\<rparr>"
| "panel_onChange st ToggleRAG = empty_patch\<lparr>pt_enableRAG := Some (\<not> enableRAG st)\<rparr>"

text \<open>
  The values a range input with the attributes \<open>min\<close>, \<open>max\<close> and \<open>step\<close> can hold:
  the browser keeps the value on the step grid that starts at \<open>min\<close> and inside
  \<open>min..max\<close>.
\<close>

definition range_values :: "rat \<Rightarrow> rat \<Rightarrow> rat \<Rightarrow> rat list" where
  "range_values lo hi stp = map (\<lambda>k. lo + of_nat k * stp) [0..<nat \<lfloor>(hi - lo) / stp\<rfloor> + 1]"

definition model_options :: "string list" where
  "model_options = [''mistral:7b'', ''llama2:7b'', ''phi:2.7b'']"

fun panel_event_ok :: "panel_event \<Rightarrow> bool" where
  "panel_event_ok (SelectModel v) = (v \<in> set model_options)"
| "panel_event_ok (SlideTemperature v) = (v \<in> set (range_values 0 1 (1 / 10)))"
| "panel_event_ok (SlideMaxTokens v) = (v \<in> set (range_values 100 2000 100))"
| "panel_event_ok ToggleRAG = True"

text \<open>The settings the UI can produce: the initial ones and each change by the panel.\<close>

inductive reachable :: "settings \<Rightarrow> bool" where
  reachable_init: "reachable initial_settings"
| reachable_change:
    "reachable st \<Longrightarrow> panel_event_ok ev \<Longrightarrow> reachable (updateSettings st (panel_onChange st ev))"

text \<open>The bounds of the settings panel's controls, as an invariant of the settings.\<close>

definition settings_ok :: "settings \<Rightarrow> bool" where
  "settings_ok st \<longleftrightarrow>
     0 \<le> temperature st \<and> temperature st \<le> 1 \<and>
     100 \<le> maxTokens st \<and> maxTokens st \<le> 2000 \<and>
     model st \<in> set model_options"

text \<open>The answer of the network to the one request \<open>sendMessage\<close> issues.\<close>

definition chat_outcome :: "network \<Rightarrow> string \<Rightarrow> message list \<Rightarrow> settings \<Rightarrow> world \<Rightarrow> outcome" where
  "chat_outcome net msg h st w = net (sent w) (POST ''/api/chat'' (build_payload msg h st))"

section \<open>The vector index of the backend\<close>

text \<open>
  Modelled from the spec: the backend's retrieval code (\<open>chatbot_service.py\<close>) is not
  among the sources, so the chunk, the index entry and the retrieved chunk follow the
  spec's data model. Vector components and scores are real numbers.
\<close>

record chunk =
  chunk_id :: nat
  document_id :: nat
  sequence_index :: nat
  chunk_text :: string

text \<open>
  Modelled from the spec: the missing \<open>VectorIndex\<close> is a store of pairs of a vector and
  its chunk's metadata.
\<close>

record index_entry =
  ie_vector :: "real list"
  ie_chunk :: chunk

text \<open>Modelled from the spec: the missing \<open>RetrievedChunk\<close>, a chunk with its score.\<close>

record retrieved_chunk =
  rc_chunk :: chunk
  similarity_score :: real

text \<open>Modelled from the spec: the error of the missing \<open>VectorIndex.search\<close>.\<close>

datatype index_error = DimensionMismatch

text \<open>Modelled from the spec: the dot product \<open>a\<cdot>b\<close> of the missing similarity metric.\<close>

definition dot :: "real list \<Rightarrow> real list \<Rightarrow> real" where
  "dot a b = sum_list (map (\<lambda>(x, y). x * y) (zip a b))"

text \<open>Modelled from the spec: the norm \<open>|a|\<close> of the missing similarity metric.\<close>

definition vec_norm :: "real list \<Rightarrow> real" where
  "vec_norm a = sqrt (dot a a)"

text \<open>
  Modelled from the spec: the missing similarity metric,
  \<open>score = (a\<cdot>b) / (|a| * |b|)\<close>, and 0 when either vector has zero norm.
\<close>

definition cosine_similarity :: "real list \<Rightarrow> real list \<Rightarrow> real" where
  "cosine_similarity a b =
     (if vec_norm a = 0 \<or> vec_norm b = 0 then 0 else dot a b / (vec_norm a * vec_norm b))"

text \<open>Modelled from the spec: one step of the missing brute-force scan, scoring an entry.\<close>

definition score_entry :: "real list \<Rightarrow> index_entry \<Rightarrow> retrieved_chunk" where
  "score_entry q e = \<lparr>rc_chunk = ie_chunk e, similarity_score = cosine_similarity q (ie_vector e)\<rparr>"

text \<open>
  Modelled from the spec: the order of the missing \<open>search\<close>: descending by score, ties
  by ascending \<open>sequence_index\<close>, then by \<open>chunk_id\<close>.
\<close>

definition rank_key :: "retrieved_chunk \<Rightarrow> real \<times> nat \<times> nat" where
  "rank_key r = (- similarity_score r, sequence_index (rc_chunk r), chunk_id (rc_chunk r))"

text \<open>
  Modelled from the spec: the missing \<open>VectorIndex.search\<close>. A stored vector whose
  dimension differs from the query's fails with \<open>DimensionMismatch\<close>; otherwise every
  entry is scored, the scored entries are sorted, truncated to \<open>top_k\<close>, then filtered to
  those with \<open>score \<ge> min_score\<close>.
\<close>

definition search ::
  "index_entry list \<Rightarrow> real list \<Rightarrow> nat \<Rightarrow> real \<Rightarrow> index_error + retrieved_chunk list"
where
  "search entries q top_k min_score =
     (if list_ex (\<lambda>e. length (ie_vector e) \<noteq> length q) entries then Inl DimensionMismatch
      else Inr (filter (\<lambda>r. min_score \<le> similarity_score r)
                  (take top_k (sort_key rank_key (map (score_entry q) entries)))))"

section \<open>Sample inputs\<close>

definition sample_history :: "message list" where
  "sample_history =
     [\<lparr>msg_id = Some 1, msg_type = ''user'', msg_content = Some ''hi'', msg_sources = None,
       msg_timestamp = ''t1''\<rparr>,
      \<lparr>msg_id = Some 2, msg_type = ''error'', msg_content = Some ''failed'', msg_sources = None,
       msg_timestamp = ''t2''\<rparr>,
      \<lparr>msg_id = None, msg_type = ''processing'', msg_content = None, msg_sources = None,
       msg_timestamp = ''t3''\<rparr>]"

definition sample_world :: world where
  "sample_world = \<lparr>sent = [], console = []\<rparr>"

definition sample_ui :: ui_state where
  "sample_ui = \<lparr>chatHistory = [], isLoading = False, inputMessage = ''hi'', isTyping = False\<rparr>"

definition sample_clock :: clock where
  "sample_clock =
     \<lparr>now_user = 10, iso_user = ''t1'', now_processing = 10, iso_processing = ''t1'',
      now_reply = 20, iso_reply = ''t2''\<rparr>"

definition sample_body :: reply_body where
  "sample_body =
     \<lparr>rb_response = Some ''hello'', rb_sources = None, rb_metadata = None, rb_models = None,
      rb_message = None\<rparr>"

definition sample_models_body :: reply_body where
  "sample_models_body =
     \<lparr>rb_response = None, rb_sources = None, rb_metadata = None,
      rb_models = Some [\<lparr>mi_id = ''m1'', mi_name = ''Model 1''\<rparr>], rb_message = None\<rparr>"

text \<open>A network that answers every request with the same outcome.\<close>

definition const_net :: "outcome \<Rightarrow> network" where
  "const_net out = (\<lambda>before req. out)"

definition timeout_error :: js_error where
  "timeout_error = AxiosError (Some ''ECONNABORTED'') None True"

definition ok_response :: "reply_body \<Rightarrow> http_response" where
  "ok_response d = \<lparr>rsp_status = 200, rsp_statusText = ''OK'', rsp_data = Some d\<rparr>"

definition sample_index :: "index_entry list" where
  "sample_index =
     [\<lparr>ie_vector = [0, 1],
       ie_chunk = \<lparr>chunk_id = 1, document_id = 1, sequence_index = 0, chunk_text = ''a''\<rparr>\<rparr>,
      \<lparr>ie_vector = [1, 0],
       ie_chunk = \<lparr>chunk_id = 2, document_id = 1, sequence_index = 1, chunk_text = ''b''\<rparr>\<rparr>]"

definition sample_body_sources :: reply_body where
  "sample_body_sources =
     sample_body\<lparr>rb_sources :=
       Some [\<lparr>src_title = Some ''Doc'', src_url = Some ''http://d'', src_snippet = None\<rparr>]\<rparr>"

definition sample_settings :: settings where
  "sample_settings =
     updateSettings initial_settings (panel_onChange initial_settings (SlideTemperature (3 / 10)))"

definition timeout_net :: network where
  "timeout_net = const_net (Rejected timeout_error)"

text \<open>A text of a space, a tab, a no-break space and a line feed.\<close>

definition blank_text :: string where
  "blank_text = [CHR 0x20, CHR 0x09, CHR 0xA0, CHR 0x0A]"

section \<open>Facts about the client\<close>

lemma sent_console_log [simp]: "sent (console_log e w) = sent w"
  by (simp add: console_log_def)

lemma console_console_log [simp]: "console (console_log e w) = console w @ [e]"
  by (simp add: console_log_def)

lemma fst_sendMessage_catch:
  "fst (sendMessage_catch e w) =
     Inl (Error (if err_code e = Some ''ECONNABORTED'' then timeout_message
                 else case err_response e of
                        Some r \<Rightarrow> server_message r
                      | None \<Rightarrow> if err_request e then network_message else unexpected_message))"
  by (simp add: sendMessage_catch_def Let_def split: option.splits)

lemma snd_sendMessage_catch:
  "snd (sendMessage_catch e w) = console_log (LogError ''Frontend: Chat API error:'' e) w"
  by (simp add: sendMessage_catch_def Let_def split: option.splits)

lemma fst_sendMessage:
  "fst (sendMessage net msg h st w) =
     (case chat_outcome net msg h st w of
        Rejected e \<Rightarrow> fst (sendMessage_catch e w)
      | Resolved r \<Rightarrow>
          (case rsp_data r of
             None \<Rightarrow> fst (sendMessage_catch (TypeError ''response'') w)
           | Some d \<Rightarrow> Inr \<lparr>res_content = rb_response d,
                            res_sources = or_empty (rb_sources d),
                            res_metadata = or_empty (rb_metadata d)\<rparr>))"
  by (simp add: sendMessage_def chat_outcome_def apiClient_post_def Let_def fst_sendMessage_catch
      split: outcome.splits option.splits)

lemma sent_sendMessage:
  "sent (snd (sendMessage net msg h st w)) = sent w @ [POST ''/api/chat'' (build_payload msg h st)]"
  by (simp add: sendMessage_def apiClient_post_def Let_def snd_sendMessage_catch
      split: outcome.splits option.splits)

lemma console_sendMessage_rejected:
  assumes "chat_outcome net msg h st w = Rejected e"
  shows "LogError ''Frontend: Chat API error:'' e \<in> set (console (snd (sendMessage net msg h st w)))"
  using assms
  by (simp add: sendMessage_def chat_outcome_def apiClient_post_def Let_def snd_sendMessage_catch)

lemma messages_nonempty:
  "timeout_message \<noteq> []" "network_message \<noteq> []" "unexpected_message \<noteq> []" "server_message r \<noteq> []"
  by (simp_all add: timeout_message_def network_message_def unexpected_message_def server_message_def)

lemma fst_getAvailableModels:
  "fst (getAvailableModels net w) =
     (case net (sent w) (GET ''/api/models'') of
        Rejected e \<Rightarrow> Inr (Some default_models)
      | Resolved r \<Rightarrow>
          (case rsp_data r of None \<Rightarrow> Inr (Some default_models) | Some d \<Rightarrow> Inr (rb_models d)))"
  by (simp add: getAvailableModels_def getAvailableModels_try_def apiClient_get_def
      split: outcome.splits option.splits)

lemma dropWhile_all_iff: "(\<forall>x \<in> set (dropWhile P v). P x) \<longleftrightarrow> (\<forall>x \<in> set v. P x)"
proof
  assume a: "\<forall>x \<in> set (dropWhile P v). P x"
  have "dropWhile P v = []"
  proof (rule ccontr)
    assume n: "dropWhile P v \<noteq> []"
    then have "\<not> P (hd (dropWhile P v))" by (rule hd_dropWhile)
    moreover from n have "hd (dropWhile P v) \<in> set (dropWhile P v)" by simp
    ultimately show False using a by blast
  qed
  then show "\<forall>x \<in> set v. P x" by simp
next
  assume "\<forall>x \<in> set v. P x"
  then show "\<forall>x \<in> set (dropWhile P v). P x" by (blast dest: set_dropWhileD)
qed

lemma js_trim_Nil_iff: "js_trim v = [] \<longleftrightarrow> (\<forall>c \<in> set v. is_js_space c)"
  by (simp add: js_trim_def dropWhile_all_iff)

lemma js_trim_blank: "(\<forall>c \<in> set v. is_js_space c) \<Longrightarrow> js_trim v = []"
  by (simp add: js_trim_Nil_iff)

lemma handleSendMessage_failed:
  assumes "js_trim msg \<noteq> []" and "fst (sendMessage net msg (chatHistory ui) st w) = Inl err"
  shows "handleSendMessage net clk st msg (ui, w) =
           (ui\<lparr>chatHistory := chatHistory ui @
                  [userMessage clk msg, processingMessage clk, errorMessage clk],
               inputMessage := [], isTyping := False, isLoading := False\<rparr>,
            console_log (LogError ''Chat error:'' err)
              (snd (sendMessage net msg (chatHistory ui) st w)))"
  using assms
  by (cases "sendMessage net msg (chatHistory ui) st w")
     (simp add: handleSendMessage_def addMessage_def handleSendMessage_finally_def)

lemma handleSendMessage_answered:
  assumes "js_trim msg \<noteq> []" and "fst (sendMessage net msg (chatHistory ui) st w) = Inr res"
  shows "handleSendMessage net clk st msg (ui, w) =
           (ui\<lparr>chatHistory := chatHistory ui @
                  [userMessage clk msg, processingMessage clk, botMessage clk res],
               inputMessage := [], isTyping := False, isLoading := False\<rparr>,
            snd (sendMessage net msg (chatHistory ui) st w))"
  using assms
  by (cases "sendMessage net msg (chatHistory ui) st w")
     (simp add: handleSendMessage_def addMessage_def handleSendMessage_finally_def)

lemma appended_types:
  "msg_type (userMessage clk msg) = ''user''"
  "msg_type (processingMessage clk) = ''processing''"
  "msg_type (errorMessage clk) = ''error''"
  "msg_type (botMessage clk res) = ''bot''"
  by (simp_all add: userMessage_def processingMessage_def errorMessage_def botMessage_def)

lemma appended_sources:
  "msg_sources (userMessage clk msg) = None"
  "msg_sources (processingMessage clk) = None"
  "msg_sources (errorMessage clk) = None"
  by (simp_all add: userMessage_def processingMessage_def errorMessage_def)

lemma hi_not_blank: "js_trim ''hi'' \<noteq> []"
  by (simp add: js_trim_def is_js_space_def)

lemma timeout_net_fails:
  "fst (sendMessage timeout_net ''hi'' h initial_settings sample_world) =
     Inl (Error timeout_message)"
  by (simp add: fst_sendMessage fst_sendMessage_catch chat_outcome_def timeout_net_def
        const_net_def timeout_error_def)

lemma range_values_bounds:
  assumes "v \<in> set (range_values lo hi stp)" and "0 < stp" and "lo \<le> hi"
  shows "lo \<le> v \<and> v \<le> hi"
proof -
  from assms(1) have "v \<in> (\<lambda>k. lo + of_nat k * stp) ` {0..<nat \<lfloor>(hi - lo) / stp\<rfloor> + 1}"
    by (simp only: range_values_def set_map set_upt)
  then obtain k where "k \<in> {0..<nat \<lfloor>(hi - lo) / stp\<rfloor> + 1}" and v: "v = lo + of_nat k * stp"
    by (rule imageE)
  then have k: "k < nat \<lfloor>(hi - lo) / stp\<rfloor> + 1" by simp
  from assms(2,3) have nn: "0 \<le> \<lfloor>(hi - lo) / stp\<rfloor>" by simp
  from k nn have "int k \<le> \<lfloor>(hi - lo) / stp\<rfloor>" by linarith
  then have "of_int (int k) \<le> (hi - lo) / stp" by (simp only: le_floor_iff)
  then have "of_nat k \<le> (hi - lo) / stp" by simp
  with assms(2) have "of_nat k * stp \<le> hi - lo" by (simp add: pos_le_divide_eq)
  moreover from assms(2) have "0 \<le> of_nat k * stp" by simp
  ultimately show ?thesis using v by simp
qed

lemma js_parseInt_bounds:
  assumes "of_int a \<le> v" and "v \<le> of_int b" and "0 \<le> a"
  shows "a \<le> js_parseInt v \<and> js_parseInt v \<le> b"
proof -
  from assms(1,3) have "0 \<le> v" by (meson of_int_0_le_iff order_trans)
  then have "js_parseInt v = \<lfloor>v\<rfloor>" by (simp add: js_parseInt_def)
  moreover from assms(1) have "a \<le> \<lfloor>v\<rfloor>" by (simp add: le_floor_iff)
  moreover from assms(2) have "\<lfloor>v\<rfloor> \<le> b" by (simp add: floor_le_iff) 
  ultimately show ?thesis by simp
qed

lemma settings_ok_step:
  assumes "settings_ok st" and "panel_event_ok ev"
  shows "settings_ok (updateSettings st (panel_onChange st ev))"
proof (cases ev)
  case (SelectModel v)
  with assms show ?thesis by (simp add: settings_ok_def updateSettings_def empty_patch_def)
next
  case (SlideTemperature v)
  with assms(2) have "0 \<le> v \<and> v \<le> 1" using range_values_bounds [of v 0 1 "1 / 10"] by simp
  with assms(1) SlideTemperature show ?thesis
    by (simp add: settings_ok_def updateSettings_def empty_patch_def)
next
  case (SlideMaxTokens v)
  with assms(2) have "100 \<le> v \<and> v \<le> 2000" using range_values_bounds [of v 100 2000 100] by simp
  then have "100 \<le> js_parseInt v \<and> js_parseInt v \<le> 2000"
    using js_parseInt_bounds [of 100 v 2000] by simp
  with assms(1) SlideMaxTokens show ?thesis
    by (simp add: settings_ok_def updateSettings_def empty_patch_def)
next
  case ToggleRAG
  with assms show ?thesis by (simp add: settings_ok_def updateSettings_def empty_patch_def)
qed

lemma reachable_settings_ok: "reachable st \<Longrightarrow> settings_ok st"
proof (induction rule: reachable.induct)
  case reachable_init
  show ?case by (simp add: settings_ok_def initial_settings_def model_options_def)
next
  case (reachable_change st ev)
  then show ?case by (simp add: settings_ok_step)
qed

lemma fst_le_lex: "(a :: real \<times> nat \<times> nat) \<le> b \<Longrightarrow> fst a \<le> fst b"
  by (cases a; cases b) (auto simp: less_eq_prod_def)

lemma sorted_scores_sort:
  "sorted_wrt (\<lambda>a b. similarity_score b \<le> similarity_score a) (sort_key rank_key xs)"
proof -
  have "sorted (map rank_key (sort_key rank_key xs))" by (rule sorted_sort_key)
  then have "sorted_wrt (\<lambda>a b. rank_key a \<le> rank_key b) (sort_key rank_key xs)"
    by (simp add: sorted_map)
  then show ?thesis
  proof (rule sorted_wrt_mono_rel [rotated])
    fix a b assume "rank_key a \<le> rank_key b"
    then have "fst (rank_key a) \<le> fst (rank_key b)" by (rule fst_le_lex)
    then show "similarity_score b \<le> similarity_score a" by (simp add: rank_key_def)
  qed
qed

section \<open>The claims\<close>

text \<open>
  C1: when the request to \<open>/api/chat\<close> resolves with a body, \<open>sendMessage\<close> returns a
  result whose content is the body's response text and whose sources are the body's list of
  sources when it has one and the empty list when it has none.
\<close>

theorem sendMessage_success:
  assumes "chat_outcome net msg h st w = Resolved r" and "rsp_data r = Some d"
  shows "\<exists>res. fst (sendMessage net msg h st w) = Inr res \<and>
           res_content res = rb_response d \<and>
           (\<forall>xs. rb_sources d = Some xs \<longrightarrow> res_sources res = xs) \<and>
           (rb_sources d = None \<longrightarrow> res_sources res = [])"
  using assms by (simp add: fst_sendMessage or_empty_def)

theorem sendMessage_success_witness:
  "(\<exists>res. fst (sendMessage (const_net (Resolved (ok_response sample_body))) ''hi''
               sample_history initial_settings sample_world) = Inr res \<and>
          res_content res = Some ''hello'' \<and> res_sources res = []) \<and>
   (\<exists>res. fst (sendMessage (const_net (Resolved (ok_response sample_body_sources))) ''hi''
               sample_history initial_settings sample_world) = Inr res \<and>
          res_content res = Some ''hello'' \<and>
          res_sources res =
            [\<lparr>src_title = Some ''Doc'', src_url = Some ''http://d'', src_snippet = None\<rparr>])"
  using sendMessage_success [of "const_net (Resolved (ok_response sample_body))" "''hi''"
          sample_history initial_settings sample_world "ok_response sample_body" sample_body]
        sendMessage_success [of "const_net (Resolved (ok_response sample_body_sources))" "''hi''"
          sample_history initial_settings sample_world "ok_response sample_body_sources"
          sample_body_sources]
  by (simp add: chat_outcome_def const_net_def ok_response_def sample_body_def
        sample_body_sources_def)

text \<open>
  C2: when the request is rejected, \<open>sendMessage\<close> throws an \<open>Error\<close> with a
  non-empty message: the timeout text for code \<open>ECONNABORTED\<close>, else the server text when
  the error has a response, else the network text when it has a request, else the text for
  an unexpected error. It returns a value only when the request resolved with a body.
\<close>

theorem sendMessage_failure:
  "(\<forall>e. chat_outcome net msg h st w = Rejected e \<longrightarrow>
      (\<exists>m. fst (sendMessage net msg h st w) = Inl (Error m) \<and> m \<noteq> [] \<and>
           (if err_code e = Some ''ECONNABORTED'' then m = timeout_message
            else case err_response e of
                   Some r \<Rightarrow> m = server_message r
                 | None \<Rightarrow> if err_request e then m = network_message
                           else m = unexpected_message))) \<and>
   (\<forall>res. fst (sendMessage net msg h st w) = Inr res \<longrightarrow>
      (\<exists>r d. chat_outcome net msg h st w = Resolved r \<and> rsp_data r = Some d))"
  by (auto simp: fst_sendMessage fst_sendMessage_catch messages_nonempty
      split: outcome.splits option.splits)

theorem sendMessage_failure_witness:
  "chat_outcome timeout_net ''hi'' sample_history initial_settings sample_world =
     Rejected timeout_error \<and>
   fst (sendMessage timeout_net ''hi'' sample_history initial_settings sample_world) =
     Inl (Error timeout_message)"
  using sendMessage_failure [of timeout_net "''hi''" sample_history initial_settings sample_world]
  by (auto simp: chat_outcome_def timeout_net_def const_net_def timeout_error_def)

text \<open>
  C3: the error message the chat interface appends has type \<open>error\<close> and no sources
  field; the Sources section is rendered exactly for messages of type \<open>bot\<close> with a
  non-empty list of sources, so never for a message of type \<open>error\<close>; and none of the
  messages a failed request appends has sources or a Sources section.
\<close>

theorem failed_request_no_sources:
  "msg_type (errorMessage clk) = ''error'' \<and>
   msg_sources (errorMessage clk) = None \<and>
   (\<forall>m. (sources_section m \<noteq> None) =
          (msg_type m = ''bot'' \<and> (\<exists>xs. msg_sources m = Some xs \<and> xs \<noteq> []))) \<and>
   (\<forall>m. msg_type m = ''error'' \<longrightarrow> sources_section m = None) \<and>
   (\<forall>err. js_trim msg \<noteq> [] \<and> fst (sendMessage net msg (chatHistory ui) st w) = Inl err \<longrightarrow>
      (\<forall>m \<in> set (drop (length (chatHistory ui))
                    (chatHistory (fst (handleSendMessage net clk st msg (ui, w))))).
         msg_sources m = None \<and> sources_section m = None))"
proof (intro conjI allI impI)
  fix m :: message
  show "(sources_section m \<noteq> None) =
          (msg_type m = ''bot'' \<and> (\<exists>xs. msg_sources m = Some xs \<and> xs \<noteq> []))"
    by (simp add: sources_section_def split: option.splits)
next
  fix m :: message
  assume "msg_type m = ''error''"
  then show "sources_section m = None" by (simp add: sources_section_def)
next
  fix err
  assume a: "js_trim msg \<noteq> [] \<and> fst (sendMessage net msg (chatHistory ui) st w) = Inl err"
  then have "handleSendMessage net clk st msg (ui, w) =
           (ui\<lparr>chatHistory := chatHistory ui @
                  [userMessage clk msg, processingMessage clk, errorMessage clk],
               inputMessage := [], isTyping := False, isLoading := False\<rparr>,
            console_log (LogError ''Chat error:'' err)
              (snd (sendMessage net msg (chatHistory ui) st w)))"
    by (simp add: handleSendMessage_failed)
  then show "\<forall>m \<in> set (drop (length (chatHistory ui))
                    (chatHistory (fst (handleSendMessage net clk st msg (ui, w))))).
         msg_sources m = None \<and> sources_section m = None"
    by (simp add: appended_sources sources_section_def)
qed (simp_all add: appended_types appended_sources)

theorem failed_request_no_sources_witness:
  "js_trim ''hi'' \<noteq> [] \<and>
   fst (sendMessage timeout_net ''hi'' (chatHistory sample_ui) initial_settings sample_world) =
     Inl (Error timeout_message) \<and>
   list_all (\<lambda>m. sources_section m = None)
     (chatHistory (fst (handleSendMessage timeout_net sample_clock initial_settings ''hi''
                          (sample_ui, sample_world))))"
proof -
  note f = timeout_net_fails [of "chatHistory sample_ui"]
  from failed_request_no_sources
         [of sample_clock "''hi''" timeout_net sample_ui initial_settings sample_world]
       hi_not_blank f
  have "\<forall>m \<in> set (drop (length (chatHistory sample_ui))
                    (chatHistory (fst (handleSendMessage timeout_net sample_clock
                                         initial_settings ''hi'' (sample_ui, sample_world))))).
          msg_sources m = None \<and> sources_section m = None"
    by blast
  then have "list_all (\<lambda>m. sources_section m = None)
     (chatHistory (fst (handleSendMessage timeout_net sample_clock initial_settings ''hi''
                          (sample_ui, sample_world))))"
    by (simp add: list_all_iff sample_ui_def)
  with hi_not_blank f show ?thesis by simp
qed

text \<open>
  C4: every call of \<open>sendMessage\<close> issues exactly one request, a POST to
  \<open>/api/chat\<close> with the payload, whatever the network answers; when that request is
  rejected with code \<open>ECONNABORTED\<close> the call throws the timeout error.
\<close>

theorem sendMessage_single_post:
  "sent (snd (sendMessage net msg h st w)) = sent w @ [POST ''/api/chat'' (build_payload msg h st)] \<and>
   (\<forall>e. chat_outcome net msg h st w = Rejected e \<and> err_code e = Some ''ECONNABORTED'' \<longrightarrow>
        fst (sendMessage net msg h st w) = Inl (Error timeout_message))"
  by (simp add: sent_sendMessage fst_sendMessage fst_sendMessage_catch)

theorem sendMessage_single_post_witness:
  "sent (snd (sendMessage timeout_net ''hi'' [] initial_settings sample_world)) =
     [POST ''/api/chat'' (build_payload ''hi'' [] initial_settings)] \<and>
   fst (sendMessage timeout_net ''hi'' [] initial_settings sample_world) =
     Inl (Error timeout_message)"
  using sendMessage_single_post [of timeout_net "''hi''" "[]" initial_settings sample_world]
  by (auto simp: chat_outcome_def timeout_net_def const_net_def timeout_error_def
        sample_world_def)

text \<open>
  C5: \<open>formatChatHistory\<close> keeps the length and the order of the history; the role
  of a turn is \<open>user\<close> exactly when the message's type is \<open>user\<close> and \<open>assistant\<close>
  otherwise; content and timestamp are copied; every role is \<open>user\<close> or \<open>assistant\<close>.
\<close>

theorem formatChatHistory_turns:
  "length (formatChatHistory h) = length h \<and>
   (\<forall>i < length h.
      role (formatChatHistory h ! i) =
        (if msg_type (h ! i) = ''user'' then ''user'' else ''assistant'') \<and>
      (role (formatChatHistory h ! i) = ''user'') = (msg_type (h ! i) = ''user'') \<and>
      content (formatChatHistory h ! i) = msg_content (h ! i) \<and>
      timestamp (formatChatHistory h ! i) = msg_timestamp (h ! i)) \<and>
   (\<forall>t \<in> set (formatChatHistory h). role t = ''user'' \<or> role t = ''assistant'')"
  by (auto simp: formatChatHistory_def)

theorem formatChatHistory_turns_witness:
  "length (formatChatHistory sample_history) = 3 \<and>
   map role (formatChatHistory sample_history) = [''user'', ''assistant'', ''assistant''] \<and>
   content (formatChatHistory sample_history ! 1) = Some ''failed'' \<and>
   timestamp (formatChatHistory sample_history ! 2) = ''t3''"
  using formatChatHistory_turns [of sample_history]
  by (simp add: sample_history_def formatChatHistory_def)

text \<open>
  C6: the initial settings and all settings reachable through the settings panel have a
  temperature between 0 and 1 and a positive \<open>maxTokens\<close> (between 100 and 2000), and so
  has the settings object of the payload built from them, whose \<open>enable_rag\<close> is the
  boolean \<open>enableRAG\<close>.
\<close>

theorem reachable_settings_bounds:
  assumes "reachable st"
  shows "0 \<le> temperature st \<and> temperature st \<le> 1 \<and> 0 < maxTokens st \<and>
         100 \<le> maxTokens st \<and> maxTokens st \<le> 2000 \<and>
         0 \<le> ps_temperature (pl_settings (build_payload msg h st)) \<and>
         ps_temperature (pl_settings (build_payload msg h st)) \<le> 1 \<and>
         0 < ps_max_tokens (pl_settings (build_payload msg h st)) \<and>
         ps_enable_rag (pl_settings (build_payload msg h st)) = enableRAG st"
  using reachable_settings_ok [OF assms] by (simp add: settings_ok_def build_payload_def)

theorem reachable_settings_bounds_witness:
  "reachable sample_settings \<and> temperature sample_settings = 3 / 10 \<and>
   0 \<le> temperature sample_settings \<and> temperature sample_settings \<le> 1 \<and>
   0 < maxTokens sample_settings"
proof -
  have ok: "panel_event_ok (SlideTemperature (3 / 10))" by code_simp
  have r: "reachable sample_settings"
    unfolding sample_settings_def by (rule reachable_change [OF reachable_init ok])
  from reachable_settings_bounds [OF r] r show ?thesis
    by (simp add: sample_settings_def updateSettings_def empty_patch_def)
qed

text \<open>
  C7: when a message that is not blank is sent and \<open>sendMessage\<close> throws, the handler
  appends the user message, the processing message and one message of type \<open>error\<close>
  with the fixed apology text, appends no message of type \<open>bot\<close>, logs the error it
  caught after \<open>sendMessage\<close> has logged the rejection, and ends with the loading and
  typing flags off.
\<close>

theorem failed_request_generic_error:
  assumes "js_trim msg \<noteq> []" and "fst (sendMessage net msg (chatHistory ui) st w) = Inl err"
  shows "\<exists>ui' w'. handleSendMessage net clk st msg (ui, w) = (ui', w') \<and>
           chatHistory ui' =
             chatHistory ui @ [userMessage clk msg, processingMessage clk, errorMessage clk] \<and>
           filter (\<lambda>m. msg_type m = ''error'')
             [userMessage clk msg, processingMessage clk, errorMessage clk] = [errorMessage clk] \<and>
           msg_content (errorMessage clk) =
             Some ''Sorry, I encountered an error. Please try again.'' \<and>
           filter (\<lambda>m. msg_type m = ''bot'')
             [userMessage clk msg, processingMessage clk, errorMessage clk] = [] \<and>
           console w' = console (snd (sendMessage net msg (chatHistory ui) st w)) @
                          [LogError ''Chat error:'' err] \<and>
           (\<forall>e. chat_outcome net msg (chatHistory ui) st w = Rejected e \<longrightarrow>
                LogError ''Frontend: Chat API error:'' e \<in> set (console w')) \<and>
           \<not> isLoading ui' \<and> \<not> isTyping ui'"
  by (simp add: handleSendMessage_failed [OF assms] appended_types
        console_sendMessage_rejected)
     (simp add: errorMessage_def)

theorem failed_request_generic_error_witness:
  "js_trim ''hi'' \<noteq> [] \<and>
   fst (sendMessage timeout_net ''hi'' (chatHistory sample_ui) initial_settings sample_world) =
     Inl (Error timeout_message) \<and>
   map msg_type
     (chatHistory (fst (handleSendMessage timeout_net sample_clock initial_settings ''hi''
                          (sample_ui, sample_world)))) = [''user'', ''processing'', ''error''] \<and>
   msg_content
     (last (chatHistory (fst (handleSendMessage timeout_net sample_clock initial_settings ''hi''
                                (sample_ui, sample_world))))) =
     Some ''Sorry, I encountered an error. Please try again.''"
  using failed_request_generic_error
          [where ui = sample_ui and clk = sample_clock, OF hi_not_blank timeout_net_fails]
        hi_not_blank timeout_net_fails [of "chatHistory sample_ui"]
  by (auto simp: appended_types sample_ui_def)

text \<open>
  C8: \<open>search\<close> succeeds when all stored vectors have the query's dimension, and every
  result of \<open>search\<close> has at most \<open>top_k\<close> entries, scores that do not increase, and
  no score below \<open>min_score\<close>.
\<close>

theorem search_top_k:
  "(list_all (\<lambda>e. length (ie_vector e) = length q) entries \<longrightarrow>
      (\<exists>rs. search entries q top_k min_score = Inr rs)) \<and>
   (\<forall>rs. search entries q top_k min_score = Inr rs \<longrightarrow>
      length rs \<le> top_k \<and>
      sorted_wrt (\<lambda>a b. b \<le> a) (map similarity_score rs) \<and>
      (\<forall>r \<in> set rs. min_score \<le> similarity_score r))"
proof (intro conjI allI impI)
  assume "list_all (\<lambda>e. length (ie_vector e) = length q) entries"
  then have "\<not> list_ex (\<lambda>e. length (ie_vector e) \<noteq> length q) entries"
    by (simp add: list_all_iff list_ex_iff)
  then show "\<exists>rs. search entries q top_k min_score = Inr rs"
    by (simp add: search_def)
next
  fix rs assume "search entries q top_k min_score = Inr rs"
  then have rs: "rs = filter (\<lambda>r. min_score \<le> similarity_score r)
                  (take top_k (sort_key rank_key (map (score_entry q) entries)))"
    by (simp add: search_def split: if_splits)
  show "length rs \<le> top_k"
    unfolding rs by (rule order_trans [OF length_filter_le]) simp
  show "\<forall>r \<in> set rs. min_score \<le> similarity_score r"
    unfolding rs by simp
  have "sorted_wrt (\<lambda>a b. similarity_score b \<le> similarity_score a) rs"
    unfolding rs
    by (intro sorted_wrt_filter sorted_wrt_take sorted_scores_sort)
  then show "sorted_wrt (\<lambda>a b. b \<le> a) (map similarity_score rs)"
    by (simp add: sorted_wrt_map)
qed

theorem search_top_k_witness:
  "\<exists>rs. search sample_index [1, 0] 2 (1 / 2) = Inr rs \<and> length rs \<le> 2 \<and>
         map similarity_score rs = [1]"
  using search_top_k [of "[1, 0]" sample_index 2 "1 / 2"]
  by (simp add: search_def sample_index_def score_entry_def cosine_similarity_def
        vec_norm_def dot_def rank_key_def)

text \<open>
  C9: for a text of white space only (the empty text among them), \<open>handleSend\<close> (also
  when reached through the Enter key) does not call \<open>onSend\<close>, and \<open>handleSendMessage\<close> leaves the UI state, the requests issued
  and the console as they were.
\<close>

theorem blank_send_noop:
  assumes "\<forall>c \<in> set v. is_js_space c"
  shows "handleSend v disabled = None \<and>
         handleKeyPress key shiftKey v disabled = None \<and>
         handleSendMessage net clk st v (ui, w) = (ui, w) \<and>
         (inputMessage ui = v \<longrightarrow> press_send net clk st (ui, w) = (ui, w))"
  using assms
  by (simp add: handleSend_def handleKeyPress_def handleSendMessage_def press_send_def
        js_trim_blank)

theorem blank_send_noop_witness:
  "js_trim blank_text = [] \<and>
   handleSend blank_text False = None \<and>
   handleKeyPress ''Enter'' False blank_text False = None \<and>
   handleSendMessage timeout_net sample_clock initial_settings blank_text
     (sample_ui, sample_world) = (sample_ui, sample_world)"
proof -
  have b: "\<forall>c \<in> set blank_text. is_js_space c"
    by (simp add: blank_text_def is_js_space_def)
  from blank_send_noop [OF b] b show ?thesis
    by (simp add: js_trim_blank)
qed

text \<open>
  C10: \<open>getAvailableModels\<close> always returns: what the body's \<open>models\<close> field holds when
  the request resolves with a body, and the fixed list of three default models when the
  request is rejected.
\<close>

theorem getAvailableModels_total:
  "(\<exists>v. fst (getAvailableModels net w) = Inr v) \<and>
   (\<forall>r d. net (sent w) (GET ''/api/models'') = Resolved r \<and> rsp_data r = Some d \<longrightarrow>
        fst (getAvailableModels net w) = Inr (rb_models d)) \<and>
   (\<forall>e. net (sent w) (GET ''/api/models'') = Rejected e \<longrightarrow>
        fst (getAvailableModels net w) = Inr (Some default_models)) \<and>
   map mi_id default_models = [''phi:2.7b'', ''llama2:7b'', ''mistral:7b'']"
  by (auto simp: fst_getAvailableModels default_models_def split: outcome.splits option.splits)

theorem getAvailableModels_total_witness:
  "fst (getAvailableModels timeout_net sample_world) = Inr (Some default_models) \<and>
   fst (getAvailableModels (const_net (Resolved (ok_response sample_models_body))) sample_world) =
     Inr (Some [\<lparr>mi_id = ''m1'', mi_name = ''Model 1''\<rparr>])"
  using getAvailableModels_total [of timeout_net sample_world]
        getAvailableModels_total
          [of "const_net (Resolved (ok_response sample_models_body))" sample_world]
  by (auto simp: timeout_net_def const_net_def ok_response_def sample_models_body_def)

end
